theory Spec2Isabelle
  imports Complex_Main
begin

section \<open>The store\<close>

text \<open>
  The two tables of \<^verbatim>\<open>init_database\<close>. A column declared \<^verbatim>\<open>NOT NULL\<close> is a field
  that always carries a value, a nullable column is an \<open>option\<close> (\<open>None\<close> is SQL
  \<^verbatim>\<open>NULL\<close>, Python \<^verbatim>\<open>None\<close>). The \<^verbatim>\<open>REAL\<close> columns are read as mathematical reals:
  the rounding of floating-point addition is outside this development.
\<close>

record account =
  acc_id :: int
  acc_name :: string
  balance :: real

text \<open>The seven values of the tuple \<^verbatim>\<open>transaction_data\<close>, in the order of the insert.\<close>

record transaction_data =
  date :: string
  ttype :: string
  description :: "string option"
  amount :: real
  from_account_id :: "int option"
  to_account_id :: "int option"
  file_path :: "string option"

record transaction_row =
  row_id :: int
  row_data :: transaction_data

text \<open>
  One row of the export query: date, type, description, amount, the name joined to
  \<^verbatim>\<open>from_account_id\<close>, the name joined to \<^verbatim>\<open>to_account_id\<close>, file path.
\<close>

type_synonym export_row =
  "string \<times> string \<times> string option \<times> real \<times> string option \<times> string option \<times> string option"

record sheet =
  columns :: "string list"
  sheet_rows :: "export_row list"

text \<open>
  The state the functions act on: the two tables in rowid order, the two counters that
  \<^verbatim>\<open>sqlite_sequence\<close> keeps for the \<^verbatim>\<open>AUTOINCREMENT\<close> keys (0 when the table has no
  row there), the files written by the export, and the flag \<^verbatim>\<open>confirm_reset\<close> of the
  session state (absent reads as \<open>False\<close>).
\<close>

record state =
  accounts :: "account list"
  transactions :: "transaction_row list"
  accounts_seq :: int
  transactions_seq :: int
  files :: "string \<rightharpoonup> sheet"
  confirm_reset :: bool

datatype error = IntegrityError string

definition UPLOAD_FOLDER :: string where
  "UPLOAD_FOLDER = ''./uploads/''"

text \<open>\<^verbatim>\<open>os.path.join\<close> of two components.\<close>

definition path_join :: "string \<Rightarrow> string \<Rightarrow> string" where
  "path_join a b =
     (if b \<noteq> [] \<and> hd b = CHR ''/'' then b
      else if a = [] \<or> last a = CHR ''/'' then a @ b
      else a @ ''/'' @ b)"

text \<open>
  \<^verbatim>\<open>init_database\<close>: both tables are created only if they do not exist, so a database
  that is already there (\<open>Some s\<close>) is left as it is.
\<close>

definition new_database :: state where
  "new_database =
     \<lparr>accounts = [], transactions = [], accounts_seq = 0, transactions_seq = 0,
      files = Map.empty, confirm_reset = False\<rparr>"

fun init_database :: "state option \<Rightarrow> state" where
  "init_database None = new_database"
| "init_database (Some s) = s"

section \<open>Accounts\<close>

text \<open>
  \<^verbatim>\<open>add_account\<close>: one insert, then the commit. The column \<^verbatim>\<open>name\<close> is \<^verbatim>\<open>UNIQUE\<close>:
  on a name that is already in the table the insert raises \<^verbatim>\<open>sqlite3.IntegrityError\<close>,
  the commit is never reached and the database stays as it was. Otherwise the new row
  takes the next key of the sequence.
\<close>

definition add_account :: "string \<Rightarrow> real \<Rightarrow> state \<Rightarrow> error option \<times> state" where
  "add_account name bal s =
     (if name \<in> set (map acc_name (accounts s))
      then (Some (IntegrityError ''UNIQUE constraint failed: accounts.name''), s)
      else (None,
            s\<lparr>accounts := accounts s @
                 [\<lparr>acc_id = accounts_seq s + 1, acc_name = name, balance = bal\<rparr>],
              accounts_seq := accounts_seq s + 1\<rparr>))"

section \<open>Transactions\<close>

text \<open>The insert of \<^verbatim>\<open>add_transaction\<close>: the row takes the next key of the sequence.\<close>

definition insert_transaction :: "transaction_data \<Rightarrow> state \<Rightarrow> state" where
  "insert_transaction tx s =
     s\<lparr>transactions := transactions s @ [\<lparr>row_id = transactions_seq s + 1, row_data = tx\<rparr>],
       transactions_seq := transactions_seq s + 1\<rparr>"

text \<open>
  \<^verbatim>\<open>UPDATE accounts SET balance = balance + ? WHERE id = ?\<close> and its twin with \<^verbatim>\<open>-\<close>.
  An update whose \<^verbatim>\<open>WHERE\<close> matches no row changes nothing and raises nothing.
\<close>

definition balance_plus :: "real \<Rightarrow> int \<Rightarrow> state \<Rightarrow> state" where
  "balance_plus amt i s =
     s\<lparr>accounts := map (\<lambda>a. if acc_id a = i then a\<lparr>balance := balance a + amt\<rparr> else a)
                        (accounts s)\<rparr>"

definition balance_minus :: "real \<Rightarrow> int \<Rightarrow> state \<Rightarrow> state" where
  "balance_minus amt i s =
     s\<lparr>accounts := map (\<lambda>a. if acc_id a = i then a\<lparr>balance := balance a - amt\<rparr> else a)
                        (accounts s)\<rparr>"

text \<open>
  \<^verbatim>\<open>if account_id: cursor.execute(...)\<close>: Python's truth value of the id, so both
  \<^verbatim>\<open>None\<close> and 0 skip the update.
\<close>

fun if_id :: "int option \<Rightarrow> (int \<Rightarrow> state \<Rightarrow> state) \<Rightarrow> state \<Rightarrow> state" where
  "if_id None upd s = s"
| "if_id (Some i) upd s = (if i = 0 then s else upd i s)"

text \<open>
  \<^verbatim>\<open>add_transaction\<close>: the insert, then the branch on the type, each branch with its
  two guarded updates in the order of the source, then the commit. No statement of it
  can raise on these types, so the result carries no error.
\<close>

definition add_transaction :: "transaction_data \<Rightarrow> state \<Rightarrow> error option \<times> state" where
  "add_transaction transaction_data s =
     (let s1 = insert_transaction transaction_data s;
          transaction_type = ttype transaction_data;
          amt = amount transaction_data;
          from_id = from_account_id transaction_data;
          to_id = to_account_id transaction_data
      in (None,
          if transaction_type = ''DEPOSIT'' then
            if_id from_id (balance_minus amt) (if_id to_id (balance_plus amt) s1)
          else if transaction_type = ''TRANSFER'' then
            if_id to_id (balance_plus amt) (if_id from_id (balance_minus amt) s1)
          else if transaction_type = ''EXPENSE'' then
            if_id to_id (balance_plus amt) (if_id from_id (balance_minus amt) s1)
          else s1))"

text \<open>A sequence of calls, each on the state the call before it committed.\<close>

fun add_transactions :: "transaction_data list \<Rightarrow> state \<Rightarrow> state" where
  "add_transactions [] s = s"
| "add_transactions (tx # txs) s = add_transactions txs (snd (add_transaction tx s))"

section \<open>Export\<close>

text \<open>
  \<^verbatim>\<open>LEFT JOIN accounts a ON t.account_id = a.id\<close> for one transaction: one result
  per account row with that id, and one result with \<^verbatim>\<open>NULL\<close> when there is none
  (a \<^verbatim>\<open>NULL\<close> id equals no id).
\<close>

definition left_join_name :: "account list \<Rightarrow> int option \<Rightarrow> string option list" where
  "left_join_name accs i =
     (case filter (\<lambda>a. Some (acc_id a) = i) accs of
        [] \<Rightarrow> [None]
      | a # as \<Rightarrow> map (\<lambda>a. Some (acc_name a)) (a # as))"

definition export_query :: "state \<Rightarrow> export_row list" where
  "export_query s =
     concat (map (\<lambda>r.
       [(date (row_data r), ttype (row_data r), description (row_data r),
         amount (row_data r), a1, a2, file_path (row_data r)).
          a1 \<leftarrow> left_join_name (accounts s) (from_account_id (row_data r)),
          a2 \<leftarrow> left_join_name (accounts s) (to_account_id (row_data r))])
       (transactions s))"

text \<open>
  \<^verbatim>\<open>export_transactions\<close>: the query, the frame with its seven column names, the file
  written under the upload folder; the path is returned. The rendering of the frame
  as a spreadsheet is the library's: the file is modelled by the frame it holds.
\<close>

definition export_transactions :: "state \<Rightarrow> string \<times> state" where
  "export_transactions s =
     (let df = \<lparr>columns = [''Date'', ''Type'', ''Description'', ''Amount'',
                           ''From Account'', ''To Account'', ''File Path''],
                sheet_rows = export_query s\<rparr>;
          excel_path = path_join UPLOAD_FOLDER ''transactions.xlsx''
      in (excel_path, s\<lparr>files := (files s)(excel_path \<mapsto> df)\<rparr>))"


section \<open>Reset\<close>

text \<open>
  \<^verbatim>\<open>reset_application\<close>, run on every pass of the script; \<open>pressed\<close> is what the
  button "Confirm Reset" returns on this pass. With the flag set, both tables and both
  rows of \<^verbatim>\<open>sqlite_sequence\<close> are deleted and the flag is cleared; otherwise the flag
  takes the value of the button.
\<close>

definition reset_application :: "bool \<Rightarrow> state \<Rightarrow> state" where
  "reset_application pressed s =
     (if confirm_reset s
      then s\<lparr>accounts := [], transactions := [], accounts_seq := 0, transactions_seq := 0,
             confirm_reset := False\<rparr>
      else s\<lparr>confirm_reset := pressed\<rparr>)"

section \<open>Well-formed stores\<close>

text \<open>
  What the schema and the key sequences guarantee of every database the program has
  built: keys are positive, unique and not above their sequence, names are unique.
\<close>

definition wf_state :: "state \<Rightarrow> bool" where
  "wf_state s \<longleftrightarrow>
     0 \<le> accounts_seq s \<and> 0 \<le> transactions_seq s \<and>
     distinct (map acc_id (accounts s)) \<and>
     distinct (map acc_name (accounts s)) \<and>
     list_all (\<lambda>i. 0 < i \<and> i \<le> accounts_seq s) (map acc_id (accounts s)) \<and>
     distinct (map row_id (transactions s)) \<and>
     list_all (\<lambda>i. 0 < i \<and> i \<le> transactions_seq s) (map row_id (transactions s))"





section \<open>A small ledger\<close>

text \<open>
  The ledger of the specification's scenario after its two \<^verbatim>\<open>add_account\<close> calls, and
  transactions to run on it.
\<close>

definition ledger_example :: state where
  "ledger_example =
     \<lparr>accounts = [\<lparr>acc_id = 1, acc_name = ''Safe'', balance = 1000\<rparr>,
                  \<lparr>acc_id = 2, acc_name = ''Bank'', balance = 0\<rparr>],
      transactions = [], accounts_seq = 2, transactions_seq = 0,
      files = Map.empty, confirm_reset = False\<rparr>"

definition mk_tx :: "string \<Rightarrow> real \<Rightarrow> int option \<Rightarrow> int option \<Rightarrow> transaction_data" where
  "mk_tx ty amt from_id to_id =
     \<lparr>date = ''2024-01-01'', ttype = ty, description = None, amount = amt,
      from_account_id = from_id, to_account_id = to_id, file_path = None\<rparr>"

text \<open>The same ledger after two transactions, with the reset flag set.\<close>

definition used_ledger :: state where
  "used_ledger =
     (add_transactions [mk_tx ''TRANSFER'' 200 (Some 1) (Some 2), mk_tx ''DEPOSIT'' 50 None (Some 2)]
        ledger_example)\<lparr>confirm_reset := True\<rparr>"

section \<open>Properties of the operations\<close>

subsection \<open>What one call changes\<close>

lemma if_id_fields [simp]:
  "transactions (balance_plus amt i s) = transactions s"
  "transactions (balance_minus amt i s) = transactions s"
  "transactions_seq (balance_plus amt i s) = transactions_seq s"
  "transactions_seq (balance_minus amt i s) = transactions_seq s"
  "accounts_seq (balance_plus amt i s) = accounts_seq s"
  "accounts_seq (balance_minus amt i s) = accounts_seq s"
  "files (balance_plus amt i s) = files s"
  "files (balance_minus amt i s) = files s"
  "confirm_reset (balance_plus amt i s) = confirm_reset s"
  "confirm_reset (balance_minus amt i s) = confirm_reset s"
  by (simp_all add: balance_plus_def balance_minus_def)



lemma if_id_other_fields [simp]:
  "transactions (if_id i (balance_plus amt) s) = transactions s"
  "transactions (if_id i (balance_minus amt) s) = transactions s"
  "transactions_seq (if_id i (balance_plus amt) s) = transactions_seq s"
  "transactions_seq (if_id i (balance_minus amt) s) = transactions_seq s"
  "accounts_seq (if_id i (balance_plus amt) s) = accounts_seq s"
  "accounts_seq (if_id i (balance_minus amt) s) = accounts_seq s"
  "files (if_id i (balance_plus amt) s) = files s"
  "files (if_id i (balance_minus amt) s) = files s"
  "confirm_reset (if_id i (balance_plus amt) s) = confirm_reset s"
  "confirm_reset (if_id i (balance_minus amt) s) = confirm_reset s"
  by (cases i; simp)+

lemma map_acc_id_if_id [simp]:
  "map acc_id (accounts (if_id i (balance_plus amt) s)) = map acc_id (accounts s)"
  "map acc_id (accounts (if_id i (balance_minus amt) s)) = map acc_id (accounts s)"
  "map acc_name (accounts (if_id i (balance_plus amt) s)) = map acc_name (accounts s)"
  "map acc_name (accounts (if_id i (balance_minus amt) s)) = map acc_name (accounts s)"
  by (cases i; simp add: balance_plus_def balance_minus_def comp_def; rule map_cong; simp)+



lemma transactions_add_transaction:
  "transactions (snd (add_transaction tx s)) =
     transactions s @ [\<lparr>row_id = transactions_seq s + 1, row_data = tx\<rparr>]"
  by (simp add: add_transaction_def Let_def insert_transaction_def)

lemma other_fields_add_transaction:
  "transactions_seq (snd (add_transaction tx s)) = transactions_seq s + 1"
  "accounts_seq (snd (add_transaction tx s)) = accounts_seq s"
  "files (snd (add_transaction tx s)) = files s"
  "confirm_reset (snd (add_transaction tx s)) = confirm_reset s"
  by (simp_all add: add_transaction_def Let_def insert_transaction_def)


lemma ids_add_transaction:
  "map acc_id (accounts (snd (add_transaction tx s))) = map acc_id (accounts s)"
  "map acc_name (accounts (snd (add_transaction tx s))) = map acc_name (accounts s)"
  by (simp_all add: add_transaction_def Let_def insert_transaction_def)

lemma wf_new_database: "wf_state new_database"
  by (simp add: wf_state_def new_database_def)

lemma wf_add_transaction: "wf_state s \<Longrightarrow> wf_state (snd (add_transaction tx s))"
  unfolding wf_state_def
  by (simp only: ids_add_transaction transactions_add_transaction other_fields_add_transaction)
     (auto simp: list_all_iff)

lemma wf_add_account: "wf_state s \<Longrightarrow> wf_state (snd (add_account name bal s))"
  unfolding wf_state_def add_account_def
  by (auto simp: list_all_iff)

lemma wf_reset_application: "wf_state s \<Longrightarrow> wf_state (reset_application pressed s)"
  by (simp add: wf_state_def reset_application_def)

lemma wf_export_transactions: "wf_state s \<Longrightarrow> wf_state (snd (export_transactions s))"
  by (simp add: wf_state_def export_transactions_def Let_def)

lemma wf_add_transactions: "wf_state s \<Longrightarrow> wf_state (add_transactions txs s)"
  by (induction txs arbitrary: s) (simp_all add: wf_add_transaction)





subsection \<open>The example ledger\<close>

lemma ledger_example_reachable:
  "ledger_example =
     snd (add_account ''Bank'' 0 (snd (add_account ''Safe'' 1000 (init_database None))))"
  by (simp add: ledger_example_def add_account_def new_database_def)

lemma wf_ledger_example: "wf_state ledger_example"
  by (simp add: wf_state_def ledger_example_def)

subsection \<open>Sequences of calls and references to accounts\<close>






subsection \<open>The export query\<close>



section \<open>The claims\<close>














text \<open>
  C6. \<^verbatim>\<open>add_account\<close> with the name of an account that already exists fails, with the
  integrity error of the \<^verbatim>\<open>UNIQUE\<close> column (the specification's DuplicateNameError),
  and the state it leaves is the state it was given: the account table is unchanged.
\<close>

theorem add_account_duplicate_name:
  assumes "name \<in> set (map acc_name (accounts s))"
  shows "add_account name bal s =
           (Some (IntegrityError ''UNIQUE constraint failed: accounts.name''), s)"
  using assms by (simp add: add_account_def)

theorem add_account_duplicate_name_witness:
  "''Bank'' \<in> set (map acc_name (accounts ledger_example)) \<and>
   fst (add_account ''Bank'' 50 ledger_example) =
     Some (IntegrityError ''UNIQUE constraint failed: accounts.name'') \<and>
   accounts (snd (add_account ''Bank'' 50 ledger_example)) =
     [\<lparr>acc_id = 1, acc_name = ''Safe'', balance = 1000\<rparr>,
      \<lparr>acc_id = 2, acc_name = ''Bank'', balance = 0\<rparr>]"
proof -
  have h: "''Bank'' \<in> set (map acc_name (accounts ledger_example))"
    by (simp add: ledger_example_def)
  show ?thesis
    using h add_account_duplicate_name[OF h, of 50]
    by (simp add: ledger_example_def)
qed

text \<open>
  C7. After the confirmed reset both tables are empty and both key sequences are where
  a new database has them, so the next \<^verbatim>\<open>add_account\<close> and the next
  \<^verbatim>\<open>add_transaction\<close> assign the key 1, the key a new database assigns first.
\<close>

theorem reset_application_clears:
  assumes "confirm_reset s"
  shows "accounts (reset_application pressed s) = [] \<and>
         transactions (reset_application pressed s) = [] \<and>
         accounts_seq (reset_application pressed s) = accounts_seq (init_database None) \<and>
         transactions_seq (reset_application pressed s) = transactions_seq (init_database None) \<and>
         accounts (snd (add_account name bal (reset_application pressed s))) =
           [\<lparr>acc_id = 1, acc_name = name, balance = bal\<rparr>] \<and>
         accounts (snd (add_account name bal (init_database None))) =
           [\<lparr>acc_id = 1, acc_name = name, balance = bal\<rparr>] \<and>
         transactions (snd (add_transaction tx (reset_application pressed s))) =
           [\<lparr>row_id = 1, row_data = tx\<rparr>] \<and>
         transactions (snd (add_transaction tx (init_database None))) =
           [\<lparr>row_id = 1, row_data = tx\<rparr>]"
  using assms
  by (simp add: reset_application_def add_account_def transactions_add_transaction new_database_def)

theorem reset_application_clears_witness:
  "confirm_reset used_ledger \<and>
   map acc_id (accounts used_ledger) = [1, 2] \<and>
   map row_id (transactions used_ledger) = [1, 2] \<and>
   accounts (reset_application False used_ledger) = [] \<and>
   transactions (reset_application False used_ledger) = [] \<and>
   accounts (snd (add_account ''Till'' 5 (reset_application False used_ledger))) =
     [\<lparr>acc_id = 1, acc_name = ''Till'', balance = 5\<rparr>] \<and>
   transactions (snd (add_transaction (mk_tx ''DEPOSIT'' 50 None (Some 1))
                        (reset_application False used_ledger))) =
     [\<lparr>row_id = 1, row_data = mk_tx ''DEPOSIT'' 50 None (Some 1)\<rparr>]"
proof -
  have h: "confirm_reset used_ledger"
    by (simp add: used_ledger_def)
  have ids: "map acc_id (accounts used_ledger) = [1, 2]"
    by (simp add: used_ledger_def ids_add_transaction ledger_example_def)
  have rows: "map row_id (transactions used_ledger) = [1, 2]"
    by (simp add: used_ledger_def transactions_add_transaction other_fields_add_transaction
          ledger_example_def)
  show ?thesis
    using h ids rows
      reset_application_clears[OF h, of False "''Till''" 5 "mk_tx ''DEPOSIT'' 50 None (Some 1)"]
    by simp
qed







end
